theory Spec2Isabelle
  imports Main "HOL-Library.Sublist"
begin

section \<open>Python strings and lists\<close>

text \<open>
  Exceptions of the Python runtime that the modelled functions can raise.
\<close>

datatype py_error =
    IndexError
  | KeyError
  | ValueError
  | TypeError
  | AttributeError
  | UnboundLocalError
  | ZeroDivisionError
  | UnicodeDecodeError

text \<open>
  \<^verbatim>\<open>s.find(word)\<close>: the lowest index at which \<open>word\<close> occurs in \<open>s\<close>, or \<open>-1\<close>.
  \<open>find_from word s i\<close> searches the suffix \<open>s\<close> that starts at index \<open>i\<close>.
\<close>

fun find_from :: "string \<Rightarrow> string \<Rightarrow> int \<Rightarrow> int" where
  "find_from word [] i = (if word = [] then i else - 1)"
| "find_from word (c # cs) i =
     (if prefix word (c # cs) then i else find_from word cs (i + 1))"

definition py_find :: "string \<Rightarrow> string \<Rightarrow> int" where
  "py_find s word = find_from word s 0"

text \<open>
  Slices \<^verbatim>\<open>xs[:e]\<close>, \<^verbatim>\<open>xs[b:]\<close> and \<^verbatim>\<open>xs[b:e]\<close>: a negative bound counts from the end,
  and every bound is clipped to the length.
\<close>

definition slice_index :: "'a list \<Rightarrow> int \<Rightarrow> nat" where
  "slice_index xs i =
     (if i < 0 then nat (int (length xs) + i) else min (nat i) (length xs))"

definition slice_to :: "'a list \<Rightarrow> int \<Rightarrow> 'a list" where
  "slice_to xs e = take (slice_index xs e) xs"

definition slice_from :: "'a list \<Rightarrow> int \<Rightarrow> 'a list" where
  "slice_from xs b = drop (slice_index xs b) xs"

definition slice :: "'a list \<Rightarrow> int \<Rightarrow> int \<Rightarrow> 'a list" where
  "slice xs b e = take (slice_index xs e - slice_index xs b) (drop (slice_index xs b) xs)"

text \<open>
  \<^verbatim>\<open>s.split("\n")\<close>: the pieces between the separators; there is always at least one.
\<close>

fun split_on :: "'a \<Rightarrow> 'a list \<Rightarrow> 'a list list" where
  "split_on d [] = [[]]"
| "split_on d (c # cs) =
     (if c = d then [] # split_on d cs
      else (case split_on d cs of [] \<Rightarrow> [[c]] | l # ls \<Rightarrow> (c # l) # ls))"

text \<open>
  \<^verbatim>\<open>int(v)\<close> on a value of a configuration: an integer is returned as it is. Of a
  string, \<^verbatim>\<open>int\<close> skips at both ends the characters \<open>\t \n \v \f \r\<close>, the blank and
  (of the characters below code point 256) U+0085 and U+00A0, but not U+001C to U+001F;
  what is left may carry a sign and is a run of decimal digits in which single
  underscores may separate digits. More than 4300 digits (the limit of the interpreter
  as it is delivered) and anything else raise \<^verbatim>\<open>ValueError\<close>.
\<close>

datatype conf_value = PyInt int | PyStr string

definition int_space :: "char \<Rightarrow> bool" where
  "int_space c = (c \<in> set [CHR 0x09, CHR 0x0A, CHR 0x0B, CHR 0x0C, CHR 0x0D,
     CHR 0x20, CHR 0x85, CHR 0xA0])"

definition int_strip :: "string \<Rightarrow> string" where
  "int_strip s = rev (dropWhile int_space (rev (dropWhile int_space s)))"

definition digit_val :: "char \<Rightarrow> nat option" where
  "digit_val c =
     (let n = (of_char c :: nat) in if 48 \<le> n \<and> n \<le> 57 then Some (n - 48) else None)"

fun digits_value :: "nat \<Rightarrow> bool \<Rightarrow> string \<Rightarrow> nat option" where
  "digits_value acc d [] = (if d then Some acc else None)"
| "digits_value acc d (c # cs) =
     (if c = CHR ''_'' then (if d then digits_value acc False cs else None)
      else (case digit_val c of
              None \<Rightarrow> None
            | Some v \<Rightarrow> digits_value (10 * acc + v) True cs))"

definition max_str_digits :: nat where
  "max_str_digits = 4300"

definition digits_int :: "string \<Rightarrow> py_error + int" where
  "digits_int ds =
     (case digits_value 0 False ds of
        None \<Rightarrow> Inl ValueError
      | Some n \<Rightarrow>
          if max_str_digits < length (filter (\<lambda>c. c \<noteq> CHR ''_'') ds) then Inl ValueError
          else Inr (int n))"

definition int_of_string :: "string \<Rightarrow> py_error + int" where
  "int_of_string s =
     (case int_strip s of
        [] \<Rightarrow> Inl ValueError
      | c # cs \<Rightarrow>
          if c = CHR ''-'' then
            (case digits_int cs of Inl e \<Rightarrow> Inl e | Inr n \<Rightarrow> Inr (- n))
          else if c = CHR ''+'' then digits_int cs
          else digits_int (c # cs))"

fun py_int :: "conf_value \<Rightarrow> py_error + int" where
  "py_int (PyInt n) = Inr n"
| "py_int (PyStr s) = int_of_string s"

text \<open>
  A section of a configuration (a \<^verbatim>\<open>dict\<close> or a section of a \<^verbatim>\<open>ConfigParser\<close>) is an
  association list in the order of insertion; \<^verbatim>\<open>conf[key]\<close> raises \<^verbatim>\<open>KeyError\<close> on a
  missing key.
\<close>

type_synonym 'v py_dict = "(string \<times> 'v) list"

definition getitem :: "'v py_dict \<Rightarrow> string \<Rightarrow> py_error + 'v" where
  "getitem d k = (case map_of d k of None \<Rightarrow> Inl KeyError | Some v \<Rightarrow> Inr v)"

definition conf_int :: "conf_value py_dict \<Rightarrow> string \<Rightarrow> py_error + int" where
  "conf_int conf k = (case getitem conf k of Inl e \<Rightarrow> Inl e | Inr v \<Rightarrow> py_int v)"

section \<open>Byte streams and texts\<close>

text \<open>
  What the solver writes to its two streams are bytes; a byte is a value of the type
  \<open>char\<close>, which has eight bits. \<^verbatim>\<open>b.decode()\<close> reads the bytes as UTF-8 and gives a
  text or raises \<^verbatim>\<open>UnicodeDecodeError\<close>. Any character can occur in such a text, so a
  text read from the solver is the list of its code points (the type \<open>unicode\<close>). A
  sequence of bytes is accepted as one character when it is one of
  \<^verbatim>\<open>00..7F\<close>, \<^verbatim>\<open>C2..DF 80..BF\<close>, \<^verbatim>\<open>E0 A0..BF 80..BF\<close>, \<^verbatim>\<open>E1..EC 80..BF 80..BF\<close>,
  \<^verbatim>\<open>ED 80..9F 80..BF\<close>, \<^verbatim>\<open>EE..EF 80..BF 80..BF\<close>, \<^verbatim>\<open>F0 90..BF 80..BF 80..BF\<close>,
  \<^verbatim>\<open>F1..F3 80..BF 80..BF 80..BF\<close> and \<^verbatim>\<open>F4 80..8F 80..BF 80..BF\<close>.
\<close>

type_synonym bytes = "char list"

type_synonym unicode = "nat list"

definition continuation :: "nat \<Rightarrow> bool" where
  "continuation b = (0x80 \<le> b \<and> b \<le> 0xBF)"

definition second_byte :: "nat \<Rightarrow> nat \<Rightarrow> bool" where
  "second_byte b c =
     ((if b = 0xE0 then 0xA0 else if b = 0xF0 then 0x90 else 0x80) \<le> c
      \<and> c \<le> (if b = 0xED then 0x9F else if b = 0xF4 then 0x8F else 0xBF))"

fun utf_8_decode :: "nat list \<Rightarrow> unicode option" where
  "utf_8_decode [] = Some []"
| "utf_8_decode (b # bs) =
     (if b < 0x80 then map_option (Cons b) (utf_8_decode bs)
      else if 0xC2 \<le> b \<and> b < 0xE0 then
        (case bs of
           c # r \<Rightarrow>
             if continuation c
             then map_option (Cons ((b - 0xC0) * 0x40 + (c - 0x80))) (utf_8_decode r)
             else None
         | _ \<Rightarrow> None)
      else if 0xE0 \<le> b \<and> b < 0xF0 then
        (case bs of
           c # d # r \<Rightarrow>
             if second_byte b c \<and> continuation d
             then map_option
                    (Cons ((b - 0xE0) * 0x1000 + (c - 0x80) * 0x40 + (d - 0x80)))
                    (utf_8_decode r)
             else None
         | _ \<Rightarrow> None)
      else if 0xF0 \<le> b \<and> b < 0xF5 then
        (case bs of
           c # d # e # r \<Rightarrow>
             if second_byte b c \<and> continuation d \<and> continuation e
             then map_option
                    (Cons ((b - 0xF0) * 0x40000 + (c - 0x80) * 0x1000 + (d - 0x80) * 0x40
                           + (e - 0x80)))
                    (utf_8_decode r)
             else None
         | _ \<Rightarrow> None)
      else None)"

definition decode :: "bytes \<Rightarrow> py_error + unicode" where
  "decode b =
     (case utf_8_decode (map of_char b) of
        None \<Rightarrow> Inl UnicodeDecodeError
      | Some t \<Rightarrow> Inr t)"

text \<open>
  The code points for which \<^verbatim>\<open>str.isspace\<close> holds, and \<^verbatim>\<open>s.split()\<close>: the maximal runs
  of characters that are not white space.
\<close>

definition is_space :: "nat \<Rightarrow> bool" where
  "is_space c = (c \<in> set [0x09, 0x0A, 0x0B, 0x0C, 0x0D, 0x1C, 0x1D, 0x1E, 0x1F, 0x20,
     0x85, 0xA0, 0x1680, 0x2000, 0x2001, 0x2002, 0x2003, 0x2004, 0x2005, 0x2006, 0x2007,
     0x2008, 0x2009, 0x200A, 0x2028, 0x2029, 0x202F, 0x205F, 0x3000])"

fun split_ws_acc :: "unicode \<Rightarrow> unicode \<Rightarrow> unicode list" where
  "split_ws_acc cur [] = (if cur = [] then [] else [cur])"
| "split_ws_acc cur (c # cs) =
     (if is_space c then (if cur = [] then split_ws_acc [] cs else cur # split_ws_acc [] cs)
      else split_ws_acc (cur @ [c]) cs)"

definition split_ws :: "unicode \<Rightarrow> unicode list" where
  "split_ws s = split_ws_acc [] s"

section \<open>Arrays of numpy\<close>

text \<open>
  The floats of the output are kept abstract: \<open>'f\<close> is the type of floats and
  \<open>conv :: unicode \<Rightarrow> 'f\<close> the conversion of one token that \<^verbatim>\<open>genfromtxt\<close> applies
  (a token that is no number becomes \<^verbatim>\<open>nan\<close>, so the conversion is total).

  \<open>'f ndarray\<close> holds the arrays of dimension 0 and 1, which is what \<^verbatim>\<open>genfromtxt\<close>
  gives on one line of text and what \<^verbatim>\<open>np.append\<close> without an axis returns;
  \<open>'f ndarray2\<close> holds the arrays of dimension 2 with their shape
  (number of rows, number of columns).
\<close>

datatype 'f ndarray = Arr0 'f | Arr1 "'f list"

record 'f ndarray2 =
  shape2 :: "nat \<times> nat"
  rows2 :: "'f list list"

text \<open>
  \<^verbatim>\<open>np.genfromtxt(StringIO(line))\<close> on a text without line feed: what follows \<^verbatim>\<open>#\<close> is
  a comment, the rest is split at white space. No token gives the empty array of
  dimension 1, one token an array of dimension 0, more tokens an array of dimension 1.
\<close>

definition split_line :: "unicode \<Rightarrow> unicode list" where
  "split_line line = split_ws (takeWhile (\<lambda>c. c \<noteq> 0x23) line)"

definition genfromtxt :: "(unicode \<Rightarrow> 'f) \<Rightarrow> unicode \<Rightarrow> 'f ndarray" where
  "genfromtxt conv line =
     (case split_line line of
        [] \<Rightarrow> Arr1 []
      | [t] \<Rightarrow> Arr0 (conv t)
      | t # ts \<Rightarrow> Arr1 (map conv (t # ts)))"

text \<open>\<^verbatim>\<open>a[i]\<close> for a literal index \<open>i \<ge> 0\<close>; an array of dimension 0 cannot be indexed.\<close>

fun index1 :: "'f ndarray \<Rightarrow> nat \<Rightarrow> py_error + 'f" where
  "index1 (Arr0 x) i = Inl IndexError"
| "index1 (Arr1 xs) i = (if i < length xs then Inr (xs ! i) else Inl IndexError)"

text \<open>
  With \<^verbatim>\<open>row = np.expand_dims(a, axis=0)\<close>: \<^verbatim>\<open>row[0, j]\<close> and \<^verbatim>\<open>row[0, 2:]\<close>. When \<open>a\<close> has
  dimension 0, \<open>row\<close> has dimension 1 and two indices are one too many.
\<close>

fun row_at :: "'f ndarray \<Rightarrow> nat \<Rightarrow> py_error + 'f" where
  "row_at (Arr0 x) j = Inl IndexError"
| "row_at (Arr1 xs) j = (if j < length xs then Inr (xs ! j) else Inl IndexError)"

fun row_from2 :: "'f ndarray \<Rightarrow> py_error + 'f list" where
  "row_from2 (Arr0 x) = Inl IndexError"
| "row_from2 (Arr1 xs) = Inr (drop 2 xs)"

text \<open>\<^verbatim>\<open>np.append(a, x)\<close> for a scalar \<open>x\<close>: both are flattened and joined.\<close>

fun np_append :: "'f ndarray \<Rightarrow> 'f \<Rightarrow> 'f ndarray" where
  "np_append (Arr0 a) x = Arr1 [a, x]"
| "np_append (Arr1 xs) x = Arr1 (xs @ [x])"

text \<open>
  \<^verbatim>\<open>np.expand_dims(v, axis=1)\<close> of a vector is a column; \<^verbatim>\<open>np.append(m, col, axis=1)\<close>
  puts a column to the right of \<open>m\<close> and raises \<^verbatim>\<open>ValueError\<close> when the numbers of
  rows differ.
\<close>

definition column :: "'f list \<Rightarrow> 'f ndarray2" where
  "column v = \<lparr>shape2 = (length v, 1), rows2 = map (\<lambda>x. [x]) v\<rparr>"

definition append_column :: "'f ndarray2 \<Rightarrow> 'f list \<Rightarrow> py_error + 'f ndarray2" where
  "append_column m v =
     (if fst (shape2 m) = length v
      then Inr \<lparr>shape2 = (fst (shape2 m), snd (shape2 m) + 1),
                rows2 = map (\<lambda>(r, x). r @ [x]) (zip (rows2 m) v)\<rparr>
      else Inl ValueError)"

section \<open>The parsers of one block of output\<close>

text \<open>
  Every parser returns \<^verbatim>\<open>(outdata_basic, umu, phi, u0u, uu)\<close>; a component that is
  \<^verbatim>\<open>None\<close> in Python is \<open>None\<close> here.
  \<^verbatim>\<open>
  def output_format_1_parser(vals):
      outdata_basic = np.genfromtxt(StringIO(vals))
      umu = None; phi = None; u0u = None; uu = None
      return outdata_basic, umu, phi, u0u, uu
  \<close>
\<close>

type_synonym 'f parsed =
  "'f ndarray \<times> 'f ndarray option \<times> 'f ndarray option \<times> 'f ndarray option \<times> 'f ndarray2 option"

definition output_format_1_parser :: "(unicode \<Rightarrow> 'f) \<Rightarrow> unicode \<Rightarrow> 'f parsed" where
  "output_format_1_parser conv vals = (genfromtxt conv vals, None, None, None, None)"

text \<open>
  \<^verbatim>\<open>
  def output_format_2_parser(vals):
      outdata_basic = np.genfromtxt(StringIO(vals[0]))
      for i, val in enumerate(vals[1:]):
          if not val:
              continue
          row = np.expand_dims(np.genfromtxt(StringIO(val)), axis=0)
          if i == 0:
              umu = row[0, 0]
              u0u = row[0, 1]
          else:
              umu = np.append(umu, row[0, 0])
              u0u = np.append(u0u, row[0, 1])
      uu = None
      phi = None
      return outdata_basic, umu, phi, u0u, uu
  \<close>
  The loop carries the local variables \<open>umu\<close> and \<open>u0u\<close>; \<open>None\<close> is a variable that
  has not been assigned yet, and reading it raises \<^verbatim>\<open>UnboundLocalError\<close>.
\<close>

fun format_2_loop ::
  "(unicode \<Rightarrow> 'f) \<Rightarrow> nat \<Rightarrow> unicode list \<Rightarrow> 'f ndarray option \<Rightarrow> 'f ndarray option
     \<Rightarrow> py_error + ('f ndarray option \<times> 'f ndarray option)" where
  "format_2_loop conv i [] umu u0u = Inr (umu, u0u)"
| "format_2_loop conv i (val # vals) umu u0u =
     (if val = [] then format_2_loop conv (Suc i) vals umu u0u
      else
        (let row = genfromtxt conv val in
         if i = 0 then
           (case row_at row 0 of Inl e \<Rightarrow> Inl e | Inr a \<Rightarrow>
            (case row_at row 1 of Inl e \<Rightarrow> Inl e | Inr b \<Rightarrow>
             format_2_loop conv (Suc i) vals (Some (Arr0 a)) (Some (Arr0 b))))
         else
           (case umu of None \<Rightarrow> Inl UnboundLocalError | Some u \<Rightarrow>
            (case row_at row 0 of Inl e \<Rightarrow> Inl e | Inr a \<Rightarrow>
             (case u0u of None \<Rightarrow> Inl UnboundLocalError | Some v \<Rightarrow>
              (case row_at row 1 of Inl e \<Rightarrow> Inl e | Inr b \<Rightarrow>
               format_2_loop conv (Suc i) vals (Some (np_append u a)) (Some (np_append v b))))))))"

definition output_format_2_parser :: "(unicode \<Rightarrow> 'f) \<Rightarrow> unicode list \<Rightarrow> py_error + 'f parsed" where
  "output_format_2_parser conv vals =
     (case vals of
        [] \<Rightarrow> Inl IndexError
      | v0 # rest \<Rightarrow>
          (let outdata_basic = genfromtxt conv v0 in
           case format_2_loop conv 0 rest None None of
             Inl e \<Rightarrow> Inl e
           | Inr (umu, u0u) \<Rightarrow>
               (case umu of None \<Rightarrow> Inl UnboundLocalError | Some u \<Rightarrow>
                (case u0u of None \<Rightarrow> Inl UnboundLocalError | Some v \<Rightarrow>
                 Inr (outdata_basic, Some u, None, Some v, None)))))"

text \<open>
  \<^verbatim>\<open>
  def output_format_3_parser(vals):
      outdata_basic = np.genfromtxt(StringIO(vals[0]))
      phi  = np.genfromtxt(StringIO(vals[1]))
      for i, val in enumerate(vals[2:]):
          if not val:
              continue
          row = np.expand_dims(np.genfromtxt(StringIO(val)), axis=0)
          if i == 0:
              umu = row[0, 0]
              u0u = row[0, 1]
              uu = np.expand_dims(row[0, 2:], axis=1)
          else:
              umu = np.append(umu, row[0, 0])
              u0u = np.append(u0u, row[0, 1])
              uu = np.append(uu, np.expand_dims(row[0, 2:], axis=1), axis=1)
      return outdata_basic, umu, phi, u0u, uu
  \<close>
\<close>

fun format_3_loop ::
  "(unicode \<Rightarrow> 'f) \<Rightarrow> nat \<Rightarrow> unicode list
     \<Rightarrow> 'f ndarray option \<Rightarrow> 'f ndarray option \<Rightarrow> 'f ndarray2 option
     \<Rightarrow> py_error + ('f ndarray option \<times> 'f ndarray option \<times> 'f ndarray2 option)" where
  "format_3_loop conv i [] umu u0u uu = Inr (umu, u0u, uu)"
| "format_3_loop conv i (val # vals) umu u0u uu =
     (if val = [] then format_3_loop conv (Suc i) vals umu u0u uu
      else
        (let row = genfromtxt conv val in
         if i = 0 then
           (case row_at row 0 of Inl e \<Rightarrow> Inl e | Inr a \<Rightarrow>
            (case row_at row 1 of Inl e \<Rightarrow> Inl e | Inr b \<Rightarrow>
             (case row_from2 row of Inl e \<Rightarrow> Inl e | Inr r \<Rightarrow>
              format_3_loop conv (Suc i) vals
                (Some (Arr0 a)) (Some (Arr0 b)) (Some (column r)))))
         else
           (case umu of None \<Rightarrow> Inl UnboundLocalError | Some u \<Rightarrow>
            (case row_at row 0 of Inl e \<Rightarrow> Inl e | Inr a \<Rightarrow>
             (case u0u of None \<Rightarrow> Inl UnboundLocalError | Some v \<Rightarrow>
              (case row_at row 1 of Inl e \<Rightarrow> Inl e | Inr b \<Rightarrow>
               (case uu of None \<Rightarrow> Inl UnboundLocalError | Some m \<Rightarrow>
                (case row_from2 row of Inl e \<Rightarrow> Inl e | Inr r \<Rightarrow>
                 (case append_column m r of Inl e \<Rightarrow> Inl e | Inr m' \<Rightarrow>
                  format_3_loop conv (Suc i) vals
                    (Some (np_append u a)) (Some (np_append v b)) (Some m'))))))))))"

definition output_format_3_parser :: "(unicode \<Rightarrow> 'f) \<Rightarrow> unicode list \<Rightarrow> py_error + 'f parsed" where
  "output_format_3_parser conv vals =
     (case vals of
        [] \<Rightarrow> Inl IndexError
      | [v0] \<Rightarrow> Inl IndexError
      | v0 # v1 # rest \<Rightarrow>
          (let outdata_basic = genfromtxt conv v0;
               phi = genfromtxt conv v1 in
           case format_3_loop conv 0 rest None None None of
             Inl e \<Rightarrow> Inl e
           | Inr (umu, u0u, uu) \<Rightarrow>
               (case umu of None \<Rightarrow> Inl UnboundLocalError | Some u \<Rightarrow>
                (case u0u of None \<Rightarrow> Inl UnboundLocalError | Some v \<Rightarrow>
                 (case uu of None \<Rightarrow> Inl UnboundLocalError | Some m \<Rightarrow>
                  Inr (outdata_basic, Some u, Some phi, Some v, Some m))))))"

section \<open>Running the solver and parsing its output\<close>

text \<open>
  The dictionary built for one case: the keys \<^verbatim>\<open>lambda\<close>, \<^verbatim>\<open>edir\<close>, \<^verbatim>\<open>edn\<close>, \<^verbatim>\<open>eup\<close>,
  \<^verbatim>\<open>uavgdir\<close>, \<^verbatim>\<open>uavgdn\<close>, \<^verbatim>\<open>uavup\<close>, \<^verbatim>\<open>umu\<close>, \<^verbatim>\<open>phi\<close>, \<^verbatim>\<open>u0u(umu)\<close>, \<^verbatim>\<open>uu(umu,phi)\<close> and
  \<^verbatim>\<open>error/verbose message\<close>, in this order.
\<close>

record 'f output_dict =
  d_lambda :: 'f
  d_edir :: 'f
  d_edn :: 'f
  d_eup :: 'f
  d_uavgdir :: 'f
  d_uavgdn :: 'f
  d_uavup :: 'f
  d_umu :: "'f ndarray option"
  d_phi :: "'f ndarray option"
  d_u0u :: "'f ndarray option"
  d_uu :: "'f ndarray2 option"
  d_message :: unicode

definition make_output_dict :: "'f parsed \<Rightarrow> unicode \<Rightarrow> py_error + 'f output_dict" where
  "make_output_dict p error =
     (case p of (outdata_basic, umu, phi, u0u, uu) \<Rightarrow>
      (case index1 outdata_basic 0 of Inl e \<Rightarrow> Inl e | Inr x0 \<Rightarrow>
       (case index1 outdata_basic 1 of Inl e \<Rightarrow> Inl e | Inr x1 \<Rightarrow>
        (case index1 outdata_basic 2 of Inl e \<Rightarrow> Inl e | Inr x2 \<Rightarrow>
         (case index1 outdata_basic 3 of Inl e \<Rightarrow> Inl e | Inr x3 \<Rightarrow>
          (case index1 outdata_basic 4 of Inl e \<Rightarrow> Inl e | Inr x4 \<Rightarrow>
           (case index1 outdata_basic 5 of Inl e \<Rightarrow> Inl e | Inr x5 \<Rightarrow>
            (case index1 outdata_basic 6 of Inl e \<Rightarrow> Inl e | Inr x6 \<Rightarrow>
             Inr \<lparr>d_lambda = x0, d_edir = x1, d_edn = x2, d_eup = x3,
                  d_uavgdir = x4, d_uavgdn = x5, d_uavup = x6,
                  d_umu = umu, d_phi = phi, d_u0u = u0u, d_uu = uu,
                  d_message = error\<rparr>))))))))"

text \<open>
  The number of cases. \<^verbatim>\<open>loop_row_count\<close> is a float: the quotient \<open>n / k\<close> of the
  number \<open>n\<close> of lines before the last piece and the number \<open>k\<close> of lines of one case;
  it is kept as the pair \<open>(n, k)\<close>, and the quotient is taken as exact (the float
  has the same integer part whenever there are fewer than \<open>2 ^ 53\<close> lines).
  \<^verbatim>\<open>
          if int(conf["output_format"]) == 0:
              loop_row_count = float(len(vals) - 1)
          elif int(conf["output_format"]) == 1:
              loop_row_count = (len(vals) - 1)/(1 + int(conf["umu_length"]))
          elif int(conf["output_format"]) == 2:
              loop_row_count = (len(vals) - 1)/(2 + int(conf["umu_length"]))
  \<close>
  When no branch is taken, the variable is unbound where it is read next.
\<close>

definition loop_row_count :: "conf_value py_dict \<Rightarrow> unicode list \<Rightarrow> py_error + (int \<times> int)" where
  "loop_row_count conf vals =
     (case conf_int conf ''output_format'' of Inl e \<Rightarrow> Inl e | Inr fmt \<Rightarrow>
      if fmt = 0 then Inr (int (length vals) - 1, 1)
      else if fmt = 1 then
        (case conf_int conf ''umu_length'' of Inl e \<Rightarrow> Inl e | Inr u \<Rightarrow>
         if 1 + u = 0 then Inl ZeroDivisionError else Inr (int (length vals) - 1, 1 + u))
      else if fmt = 2 then
        (case conf_int conf ''umu_length'' of Inl e \<Rightarrow> Inl e | Inr u \<Rightarrow>
         if 2 + u = 0 then Inl ZeroDivisionError else Inr (int (length vals) - 1, 2 + u))
      else Inl UnboundLocalError)"

text \<open>\<^verbatim>\<open>int(x)\<close>, which rounds towards zero, for \<open>x = n / k\<close>.\<close>

definition float_to_int :: "int \<times> int \<Rightarrow> int" where
  "float_to_int x = sgn (fst x) * sgn (snd x) * (\<bar>fst x\<bar> div \<bar>snd x\<bar>)"

text \<open>
  One pass of the loop over the cases:
  \<^verbatim>\<open>
              if int(conf["output_format"]) == 0:
                  rows = vals[ind]
                  outdata_basic, umu, phi, u0u, uu = output_format_1_parser(rows)
              elif int(conf["output_format"]) == 1:
                  rows = vals[int(ind*(1 + int(conf["umu_length"]))): int((ind+1)*(1 + int(conf["umu_length"])))]
                  outdata_basic, umu, phi, u0u, uu = output_format_2_parser(rows)
              elif int(conf["output_format"]) == 2:
                  rows = vals[int(ind*(2 + int(conf["umu_length"]))): int((ind+1)*(2 + int(conf["umu_length"])))]
                  outdata_basic, umu, phi, u0u, uu = output_format_3_parser(rows)
              output_dict = {...}
  \<close>
\<close>

definition parse_case ::
  "(unicode \<Rightarrow> 'f) \<Rightarrow> conf_value py_dict \<Rightarrow> unicode list \<Rightarrow> nat \<Rightarrow> py_error + 'f parsed" where
  "parse_case conv conf vals ind =
     (case conf_int conf ''output_format'' of Inl e \<Rightarrow> Inl e | Inr fmt \<Rightarrow>
      if fmt = 0 then
        (if ind < length vals then Inr (output_format_1_parser conv (vals ! ind))
         else Inl IndexError)
      else if fmt = 1 then
        (case conf_int conf ''umu_length'' of Inl e \<Rightarrow> Inl e | Inr u \<Rightarrow>
         output_format_2_parser conv
           (slice vals (int ind * (1 + u)) ((int ind + 1) * (1 + u))))
      else if fmt = 2 then
        (case conf_int conf ''umu_length'' of Inl e \<Rightarrow> Inl e | Inr u \<Rightarrow>
         output_format_3_parser conv
           (slice vals (int ind * (2 + u)) ((int ind + 1) * (2 + u))))
      else Inl UnboundLocalError)"

definition case_dict ::
  "(unicode \<Rightarrow> 'f) \<Rightarrow> conf_value py_dict \<Rightarrow> unicode list \<Rightarrow> unicode \<Rightarrow> nat
     \<Rightarrow> py_error + 'f output_dict" where
  "case_dict conv conf vals error ind =
     (case parse_case conv conf vals ind of
        Inl e \<Rightarrow> Inl e
      | Inr p \<Rightarrow> make_output_dict p error)"

text \<open>The loop \<^verbatim>\<open>for ind in range(...)\<close> with \<^verbatim>\<open>output.append\<close>; the first exception ends it.\<close>

fun collect :: "(nat \<Rightarrow> py_error + 'a) \<Rightarrow> nat list \<Rightarrow> py_error + 'a list" where
  "collect f [] = Inr []"
| "collect f (ind # inds) =
     (case f ind of
        Inl e \<Rightarrow> Inl e
      | Inr d \<Rightarrow> (case collect f inds of Inl e \<Rightarrow> Inl e | Inr ds \<Rightarrow> Inr (d # ds)))"

text \<open>
  The branch of \<^verbatim>\<open>run_libradtran\<close> taken when the solver exits with status 0. When
  \<^verbatim>\<open>loop_row_count\<close> is no integer the source prints two lines
  \<^verbatim>\<open>
          if not loop_row_count.is_integer():
              print("Something went wrong with row counting")
              print(loop_row_count)
          for ind in range(int(loop_row_count)):
  \<close>
  and goes on with the integer part.
\<close>

definition parse_output ::
  "(unicode \<Rightarrow> 'f) \<Rightarrow> unicode \<Rightarrow> unicode \<Rightarrow> conf_value py_dict \<Rightarrow> py_error + 'f output_dict list" where
  "parse_output conv vals_text error conf =
     (let vals = split_on 0x0A vals_text in
      case loop_row_count conf vals of
        Inl e \<Rightarrow> Inl e
      | Inr x \<Rightarrow> collect (case_dict conv conf vals error) [0 ..< nat (float_to_int x)])"

text \<open>
  The solver is a process outside the program: \<open>uvspec loc params w\<close> runs the
  binary under \<open>loc\<close> with \<open>params\<close> on its standard input in the state \<open>w\<close> of the
  machine, and returns the exit status, the bytes of both output streams, and the new
  state. Both streams are decoded before the exit status is looked at.
  \<^verbatim>\<open>
  def run_libradtran(libradtran_bin_file_loc, params, conf):
      pros = sp.Popen(f"{libradtran_bin_file_loc}/uvspec", shell=True, stdin=sp.PIPE, ...)
      vals, error = pros.communicate(input=str.encode(params))
      vals = vals.decode()
      error = error.decode()
      if pros.returncode != 0:
          return error
      else:
          ...
          return output
  \<close>
\<close>

record proc_result =
  returncode :: int
  stdout :: bytes
  stderr :: bytes

datatype 'f run_result = ErrorText unicode | Records "'f output_dict list"

type_synonym 'w solver = "string \<Rightarrow> string \<Rightarrow> 'w \<Rightarrow> proc_result \<times> 'w"

definition run_libradtran ::
  "(unicode \<Rightarrow> 'f) \<Rightarrow> 'w solver \<Rightarrow> string \<Rightarrow> string \<Rightarrow> conf_value py_dict \<Rightarrow> 'w
     \<Rightarrow> (py_error + 'f run_result) \<times> 'w" where
  "run_libradtran conv uvspec libradtran_bin_file_loc params conf w =
     (case uvspec libradtran_bin_file_loc params w of (pros, w') \<Rightarrow>
      (case decode (stdout pros) of Inl e \<Rightarrow> (Inl e, w') | Inr vals \<Rightarrow>
       (case decode (stderr pros) of Inl e \<Rightarrow> (Inl e, w') | Inr error \<Rightarrow>
        if returncode pros \<noteq> 0 then (Inr (ErrorText error), w')
        else
          (case parse_output conv vals error conf of
             Inl e \<Rightarrow> (Inl e, w')
           | Inr output \<Rightarrow> (Inr (Records output), w')))))"

section \<open>Injection of auxiliary files into the main input\<close>

text \<open>
  \<^verbatim>\<open>
  def add_to_main_input_str(main_str, temp_file_var_name, temp_file_name):
      word = "disort"
      start_index = main_str.find(word)
      end_index = start_index + len(word)
      temp_str_to_add = f"\n{temp_file_var_name} {temp_file_name}"
      main_str_modified = main_str[:end_index] + temp_str_to_add + main_str[end_index:]
      return main_str_modified
  \<close>
\<close>

definition word :: string where
  "word = ''disort''"

definition temp_str_to_add :: "string \<Rightarrow> string \<Rightarrow> string" where
  "temp_str_to_add temp_file_var_name temp_file_name =
     [CHR 0x0A] @ temp_file_var_name @ '' '' @ temp_file_name"

definition add_to_main_input_str :: "string \<Rightarrow> string \<Rightarrow> string \<Rightarrow> string" where
  "add_to_main_input_str main_str temp_file_var_name temp_file_name =
     (let start_index = py_find main_str word;
          end_index = start_index + int (length word)
      in slice_to main_str end_index
           @ temp_str_to_add temp_file_var_name temp_file_name
           @ slice_from main_str end_index)"

section \<open>Running a list of configurations\<close>

text \<open>
  A configuration maps the names of its sections to the sections; an entry of the list
  given to \<^verbatim>\<open>run_conf_files_libradtran\<close> is either a string (the path of an
  \<^verbatim>\<open>.ini\<close> file) or a configuration.
\<close>

type_synonym configuration = "conf_value py_dict py_dict"


text \<open>
  What the program asks of the machine, with the state \<open>'w\<close> of the machine passed
  along: running the solver, reading an \<^verbatim>\<open>.ini\<close> file with \<^verbatim>\<open>ConfigParser\<close>, creating
  the temporary directory, creating a named temporary file in it, writing to that file,
  and removing the directory when the \<^verbatim>\<open>with\<close> block is left. These operations are
  taken to succeed.
\<close>

record 'w env =
  uvspec :: "'w solver"
  read_ini :: "string \<Rightarrow> 'w \<Rightarrow> configuration \<times> 'w"
  temporary_directory :: "'w \<Rightarrow> string \<times> 'w"
  named_temporary_file :: "string \<Rightarrow> 'w \<Rightarrow> string \<times> 'w"
  write_file :: "string \<Rightarrow> string \<Rightarrow> 'w \<Rightarrow> 'w"
  cleanup :: "string \<Rightarrow> 'w \<Rightarrow> 'w"

text \<open>
  The loop over the auxiliary files:
  \<^verbatim>\<open>
                  for key in temp_files:
                      temp = tempfile.NamedTemporaryFile(dir=tmpdir, delete=False)
                      temp.write(temp_files[key].encode())
                      temp.seek(0)
                      main_input_str = add_to_main_input_str(main_input_str, key, temp.name)
  \<close>
  A value that is no string has neither \<^verbatim>\<open>encode\<close> nor \<^verbatim>\<open>find\<close>.
\<close>

fun add_temp_files ::
  "'w env \<Rightarrow> string \<Rightarrow> conf_value py_dict \<Rightarrow> conf_value \<Rightarrow> 'w
     \<Rightarrow> (py_error + conf_value) \<times> 'w" where
  "add_temp_files env tmpdir [] main_input_str w = (Inr main_input_str, w)"
| "add_temp_files env tmpdir ((key, content) # temp_files) main_input_str w =
     (case named_temporary_file env tmpdir w of (name, w1) \<Rightarrow>
      (case content of
         PyInt n \<Rightarrow> (Inl AttributeError, w1)
       | PyStr body \<Rightarrow>
           (let w2 = write_file env name body w1 in
            case main_input_str of
              PyInt n \<Rightarrow> (Inl AttributeError, w2)
            | PyStr main_str \<Rightarrow>
                add_temp_files env tmpdir temp_files
                  (PyStr (add_to_main_input_str main_str key name)) w2)))"






section \<open>Auxiliary notions for the statements\<close>

text \<open>
  The names of the temporary files that the loop over the auxiliary files creates, in
  the order of creation.
\<close>

fun temp_file_names :: "'w env \<Rightarrow> string \<Rightarrow> conf_value py_dict \<Rightarrow> 'w \<Rightarrow> string list" where
  "temp_file_names env tmpdir [] w = []"
| "temp_file_names env tmpdir ((key, content) # temp_files) w =
     (case named_temporary_file env tmpdir w of (name, w1) \<Rightarrow>
      name # temp_file_names env tmpdir temp_files
               (case content of PyInt n \<Rightarrow> w1 | PyStr body \<Rightarrow> write_file env name body w1))"

text \<open>
  For the evaluation on a concrete output a float is represented by the token it is
  read from.
\<close>

definition as_token :: "unicode \<Rightarrow> unicode" where
  "as_token t = t"








text \<open>
  The text whose characters are those of a string, and solvers for the evaluation on
  concrete runs: one that exits with status 1 and the given bytes on its standard error
  stream, one that exits with status 0 and the given bytes on its standard output, and
  one whose behaviour depends on its input.
\<close>

definition ascii :: "string \<Rightarrow> unicode" where
  "ascii s = map of_char s"

definition failing_solver :: "bytes \<Rightarrow> unit solver" where
  "failing_solver err loc params w = (\<lparr>returncode = 1, stdout = ''1 2'', stderr = err\<rparr>, w)"

definition printing_solver :: "bytes \<Rightarrow> unit solver" where
  "printing_solver out loc params w = (\<lparr>returncode = 0, stdout = out, stderr = []\<rparr>, w)"




section \<open>Conversions on samples\<close>

lemma decode_samples:
  "decode [] = Inr []"
  "decode ''uvspec'' = Inr [0x75, 0x76, 0x73, 0x70, 0x65, 0x63]"
  "decode [CHR 0xC3, CHR 0xA9] = Inr [0xE9]"
  "decode [CHR 0xE2, CHR 0x82, CHR 0xAC] = Inr [0x20AC]"
  "decode [CHR 0xF0, CHR 0x9F, CHR 0x98, CHR 0x80] = Inr [0x1F600]"
  "decode [CHR 0xFF] = Inl UnicodeDecodeError"
  "decode [CHR 0xE9] = Inl UnicodeDecodeError"
  "decode [CHR 0xC0, CHR 0x80] = Inl UnicodeDecodeError"
  "decode [CHR 0xED, CHR 0xA0, CHR 0x80] = Inl UnicodeDecodeError"
  "decode [CHR 0xF4, CHR 0x90, CHR 0x80, CHR 0x80] = Inl UnicodeDecodeError"
  "decode [CHR 0x41, CHR 0x80] = Inl UnicodeDecodeError"
  by (simp_all add: decode_def continuation_def second_byte_def)

lemma int_of_string_samples:
  "int_of_string '' 3 '' = Inr 3"
  "int_of_string ''-1_0'' = Inr (- 10)"
  "int_of_string ''+007'' = Inr 7"
  "int_of_string [CHR 0xA0, CHR ''2'', CHR 0x85] = Inr 2"
  "int_of_string [CHR 0x1F, CHR ''0''] = Inl ValueError"
  "int_of_string ''1__0'' = Inl ValueError"
  "int_of_string ''_1'' = Inl ValueError"
  "int_of_string ''1_'' = Inl ValueError"
  "int_of_string ''- 1'' = Inl ValueError"
  "int_of_string ''3.0'' = Inl ValueError"
  "int_of_string '''' = Inl ValueError"
  by (simp_all add: int_of_string_def int_strip_def int_space_def digits_int_def
      digit_val_def max_str_digits_def)

lemma digits_int_limit:
  "max_str_digits < length (filter (\<lambda>c. c \<noteq> CHR ''_'') ds) \<Longrightarrow> digits_int ds = Inl ValueError"
  by (simp add: digits_int_def split: option.splits)

lemma split_line_samples:
  "split_line (ascii ''  1.5  2e3 # rest'') = [ascii ''1.5'', ascii ''2e3'']"
  "split_line (ascii ''   '') = []"
  "split_line [] = []"
  "split_line [0x31, 0x3000, 0x32, 0x1F, 0x33] = [[0x31], [0x32], [0x33]]"
  by (simp_all add: split_line_def split_ws_def is_space_def ascii_def)

section \<open>Properties of the search\<close>

lemma find_from_lower: "find_from w s i = - 1 \<or> i \<le> find_from w s i"
  by (induction s arbitrary: i) (auto, force)

lemma find_from_absent:
  "0 \<le> i \<Longrightarrow> (find_from w s i = - 1) = (\<not> (\<exists>p q. s = p @ w @ q))"
proof (induction s arbitrary: i)
  case Nil
  then show ?case by auto
next
  case (Cons c cs)
  show ?case
  proof (cases "prefix w (c # cs)")
    case True
    then obtain q where "c # cs = w @ q" by (auto simp: prefix_def)
    then have "c # cs = [] @ w @ q" by simp
    then have "\<exists>p q. c # cs = p @ w @ q" by blast
    with True Cons.prems show ?thesis by simp
  next
    case False
    have "(\<exists>p q. c # cs = p @ w @ q) = (\<exists>p q. cs = p @ w @ q)"
    proof
      assume "\<exists>p q. c # cs = p @ w @ q"
      then obtain p q where pq: "c # cs = p @ w @ q" by blast
      show "\<exists>p q. cs = p @ w @ q"
      proof (cases p)
        case Nil
        with pq False show ?thesis by (simp add: prefix_def)
      next
        case (Cons a p')
        with pq have "cs = p' @ w @ q" by simp
        then show ?thesis by blast
      qed
    next
      assume "\<exists>p q. cs = p @ w @ q"
      then obtain p q where "cs = p @ w @ q" by blast
      then have "c # cs = (c # p) @ w @ q" by simp
      then show "\<exists>p q. c # cs = p @ w @ q" by blast
    qed
    moreover from Cons.prems have "0 \<le> i + 1" by simp
    ultimately show ?thesis using False Cons.IH [of "i + 1"] by simp
  qed
qed

lemma find_from_first:
  "s = p @ w @ q \<Longrightarrow> (\<forall>p' q'. s = p' @ w @ q' \<longrightarrow> length p \<le> length p')
     \<Longrightarrow> find_from w s i = i + int (length p)"
proof (induction s arbitrary: p i)
  case Nil
  then show ?case by simp
next
  case (Cons c cs)
  show ?case
  proof (cases "prefix w (c # cs)")
    case True
    then obtain r where "c # cs = [] @ w @ r" by (auto simp: prefix_def)
    with Cons.prems(2) have "length p \<le> length ([]::string)" by blast
    then show ?thesis using True by simp
  next
    case False
    with Cons.prems(1) have "p \<noteq> []" by (auto simp: prefix_def)
    then obtain p1 where p: "p = c # p1" using Cons.prems(1) by (cases p) auto
    with Cons.prems(1) have cs: "cs = p1 @ w @ q" by simp
    have min: "\<forall>p' q'. cs = p' @ w @ q' \<longrightarrow> length p1 \<le> length p'"
    proof (intro allI impI)
      fix p' q' assume "cs = p' @ w @ q'"
      then have "c # cs = (c # p') @ w @ q'" by simp
      with Cons.prems(2) have "length p \<le> length (c # p')" by blast
      with p show "length p1 \<le> length p'" by simp
    qed
    from Cons.IH [OF cs min, of "i + 1"] False p show ?thesis by simp
  qed
qed

lemma first_occurrence_tail:
  assumes "\<forall>p' q'. p @ w @ q = p' @ w @ q' \<longrightarrow> length p \<le> length p'"
  shows "\<forall>p' q'. p @ w @ r = p' @ w @ q' \<longrightarrow> length p \<le> length p'"
proof (intro allI impI, rule ccontr)
  fix p' q' assume eq: "p @ w @ r = p' @ w @ q'" and "\<not> length p \<le> length p'"
  then have lt: "length p' < length p" by simp
  let ?n = "length p' + length w"
  have "take ?n (p @ w @ r) = p' @ w" using eq by simp
  moreover have "take ?n (p @ w @ r) = take ?n (p @ w)" using lt by simp
  ultimately have "p @ w = p' @ w @ drop ?n (p @ w)"
    by (metis append_take_drop_id append.assoc)
  then have "p @ w @ q = p' @ w @ (drop ?n (p @ w) @ q)"
    by (metis append.assoc)
  with assms have "length p \<le> length p'" by blast
  with lt show False by simp
qed

lemma add_to_main_input_str_at_anchor:
  assumes "\<forall>p' q'. p @ word @ q = p' @ word @ q' \<longrightarrow> length p \<le> length p'"
  shows "add_to_main_input_str (p @ word @ q) name path
           = p @ word @ temp_str_to_add name path @ q"
proof -
  have f: "py_find (p @ word @ q) word = int (length p)"
    using find_from_first [OF refl assms, of 0] by (simp add: py_find_def)
  have n: "nat (int (length p) + int (length word)) = length p + length word" by simp
  show ?thesis
    using f
    by (simp add: add_to_main_input_str_def slice_to_def slice_from_def
        slice_index_def Let_def n)
qed

lemma add_temp_files_at_word:
  assumes "\<forall>p' q'. p @ word @ q = p' @ word @ q' \<longrightarrow> length p \<le> length p'"
    and "\<forall>kv \<in> set temp_files. \<exists>body. snd kv = PyStr body"
  shows "fst (add_temp_files env tmpdir temp_files (PyStr (p @ word @ q)) w)
       = Inr (PyStr (p @ word
           @ concat (rev (map2 temp_str_to_add (map fst temp_files)
                            (temp_file_names env tmpdir temp_files w)))
           @ q))"
  using assms
proof (induction temp_files arbitrary: q w)
  case Nil
  then show ?case by simp
next
  case (Cons kv temp_files)
  obtain key content where kv: "kv = (key, content)" by (cases kv)
  from Cons.prems(2) kv obtain body where c: "content = PyStr body" by auto
  obtain name w1 where n: "named_temporary_file env tmpdir w = (name, w1)"
    by (cases "named_temporary_file env tmpdir w")
  let ?q = "temp_str_to_add key name @ q"
  have min: "\<forall>p' q'. p @ word @ ?q = p' @ word @ q' \<longrightarrow> length p \<le> length p'"
    using first_occurrence_tail [OF Cons.prems(1)] by blast
  have rest: "\<forall>kv \<in> set temp_files. \<exists>body. snd kv = PyStr body"
    using Cons.prems(2) by simp
  have step: "add_to_main_input_str (p @ word @ q) key name = p @ word @ ?q"
    using add_to_main_input_str_at_anchor [OF Cons.prems(1)] by simp
  show ?case
    using Cons.IH [OF min rest, of "write_file env name body w1"]
    by (simp add: kv c n step)
qed

text \<open>
  Claim C10. When the token \<open>disort\<close> does not occur in the main input, the search
  returns \<open>-1\<close>, no error is signalled, and the directive line is spliced in after the
  first five characters of the input.
\<close>

theorem add_to_main_input_str_no_anchor:
  assumes "\<not> (\<exists>p q. main_str = p @ ''disort'' @ q)"
  shows "py_find main_str ''disort'' = - 1
    \<and> add_to_main_input_str main_str name path
        = take 5 main_str @ [CHR 0x0A] @ name @ '' '' @ path @ drop 5 main_str"
proof -
  have f: "py_find main_str word = - 1"
    using assms find_from_absent [of 0 word main_str] by (simp add: py_find_def word_def)
  have l: "length word = 6" by (simp add: word_def)
  show ?thesis
    using f l
    by (simp add: add_to_main_input_str_def temp_str_to_add_def slice_to_def slice_from_def
        slice_index_def Let_def word_def [symmetric] min_def)
qed

theorem add_to_main_input_str_no_anchor_witness:
  "\<not> (\<exists>p q. ''rte_solver twostr'' = p @ ''disort'' @ q)
   \<and> add_to_main_input_str ''rte_solver twostr'' ''aerosol_file tau'' ''/tmp/x''
       = ''rte_s'' @ [CHR 0x0A] @ ''aerosol_file tau /tmp/xolver twostr''"
proof -
  have h: "\<not> (\<exists>p q. ''rte_solver twostr'' = p @ ''disort'' @ q)"
    using find_from_absent [of 0 "''disort''" "''rte_solver twostr''"] by simp
  show ?thesis
    using h add_to_main_input_str_no_anchor [OF h, of "''aerosol_file tau''" "''/tmp/x''"]
    by simp
qed

section \<open>Injection at the anchor\<close>

text \<open>
  Claim C9. When \<open>p\<close> is the text before the first occurrence of the token \<open>disort\<close>
  in the main input, one call inserts the directive line made of a line feed, the name,
  a blank and the path right after the token and leaves the rest as it is; the loop
  over the auxiliary files, taken in the order of the mapping, leaves the directive
  lines after the token in the reverse of that order, each with the name of the
  temporary file created for it.
\<close>

theorem add_temp_files_at_anchor:
  assumes "\<forall>p' q'. p @ ''disort'' @ q = p' @ ''disort'' @ q' \<longrightarrow> length p \<le> length p'"
    and "\<forall>kv \<in> set temp_files. \<exists>body. snd kv = PyStr body"
  shows "add_to_main_input_str (p @ ''disort'' @ q) name path
           = p @ ''disort'' @ [CHR 0x0A] @ name @ '' '' @ path @ q
    \<and> fst (add_temp_files env tmpdir temp_files (PyStr (p @ ''disort'' @ q)) w)
       = Inr (PyStr (p @ ''disort''
           @ concat (rev (map2 temp_str_to_add (map fst temp_files)
                            (temp_file_names env tmpdir temp_files w)))
           @ q))"
  using add_to_main_input_str_at_anchor [OF assms(1) [folded word_def], of name path]
    add_temp_files_at_word [OF assms(1) [folded word_def] assms(2), of env tmpdir w]
  by (simp add: word_def temp_str_to_add_def)

theorem add_temp_files_at_anchor_witness:
  "fst (add_temp_files
        \<lparr>uvspec = (\<lambda>loc params w. (\<lparr>returncode = 0, stdout = [], stderr = []\<rparr>, w)),
         read_ini = (\<lambda>p w. ([], w)),
         temporary_directory = (\<lambda>w. (''/tmp/d'', w)),
         named_temporary_file = (\<lambda>d w. (d @ ''/f'' @ replicate w (CHR ''x''), Suc w)),
         write_file = (\<lambda>name body w. w),
         cleanup = (\<lambda>d w. w)\<rparr>
        ''/tmp/d'' [(''a'', PyStr ''1''), (''b'', PyStr ''2'')]
        (PyStr (''rte_solver '' @ ''disort'' @ ''X'')) (0::nat))
     = Inr (PyStr (''rte_solver disort'' @ [CHR 0x0A] @ ''b /tmp/d/fx''
                     @ [CHR 0x0A] @ ''a /tmp/d/f'' @ ''X''))"
proof -
  have h: "\<forall>p' q'. ''rte_solver '' @ ''disort'' @ ''X'' = p' @ ''disort'' @ q'
       \<longrightarrow> length ''rte_solver '' \<le> length p'"
  proof (intro allI impI)
    fix p' q' :: string
    assume eq: "''rte_solver '' @ ''disort'' @ ''X'' = p' @ ''disort'' @ q'"
    have f: "find_from ''disort'' (''rte_solver '' @ ''disort'' @ ''X'') 0 = 11" by simp
    show "length ''rte_solver '' \<le> length p'"
    proof (rule ccontr)
      assume "\<not> length ''rte_solver '' \<le> length p'"
      then have "length p' < 11" by simp
      then have "take (length p') (''rte_solver '' @ ''disort'' @ ''X'') = p'
          \<and> length p' < 11" using eq by simp
      then have "p' \<in> set (map (\<lambda>n. take n ''rte_solver disortX'') [0 ..< 11])"
        by (auto simp: image_iff intro!: bexI [of _ "length p'"])
      then show False using eq by (auto simp: numeral_eq_Suc upt_rec)
    qed
  qed
  have b: "\<forall>kv \<in> set [(''a'', PyStr ''1''), (''b'', PyStr ''2'')]. \<exists>body. snd kv = PyStr body"
    by simp
  let ?env = "\<lparr>uvspec = (\<lambda>loc params w. (\<lparr>returncode = 0, stdout = [], stderr = []\<rparr>, w)),
         read_ini = (\<lambda>p w. ([], w)),
         temporary_directory = (\<lambda>w. (''/tmp/d'', w)),
         named_temporary_file = (\<lambda>d w. (d @ ''/f'' @ replicate w (CHR ''x''), Suc w)),
         write_file = (\<lambda>name body w. w),
         cleanup = (\<lambda>d w. w)\<rparr>"
  show ?thesis
    using add_temp_files_at_anchor [OF h b, of "[]" "[]" ?env "''/tmp/d''" "0::nat"]
    by (simp add: temp_str_to_add_def)
qed

section \<open>Failure of the solver\<close>

lemma decode_ascii:
  "\<forall>c \<in> set b. (of_char c :: nat) < 128 \<Longrightarrow> decode b = Inr (ascii b)"
  by (induction b) (auto simp: decode_def ascii_def split: option.splits)

lemma run_libradtran_decoded:
  assumes "solver loc params w = (pros, w')"
    and "decode (stdout pros) = Inr vals" and "decode (stderr pros) = Inr err"
  shows "run_libradtran conv solver loc params conf w
    = (if returncode pros \<noteq> 0 then (Inr (ErrorText err), w')
       else (case parse_output conv vals err conf of
               Inl e \<Rightarrow> (Inl e, w')
             | Inr output \<Rightarrow> (Inr (Records output), w')))"
  using assms by (simp add: run_libradtran_def)

text \<open>
  Claim C7, as amended. When the solver exits with a status other than zero and the
  bytes of both of its streams are valid UTF-8, \<^verbatim>\<open>run_libradtran\<close> returns the decoded
  text of the standard error stream as it is; what the standard output holds and the
  parser options play no part, so nothing is parsed.
\<close>

theorem run_libradtran_nonzero_exit:
  assumes "solver loc params w = (pros, w')" and "returncode pros \<noteq> 0"
    and "decode (stdout pros) = Inr out" and "decode (stderr pros) = Inr err"
  shows "run_libradtran conv solver loc params conf w = (Inr (ErrorText err), w')"
  using assms run_libradtran_decoded [of solver loc params w pros w' out err conv conf]
  by simp

theorem run_libradtran_nonzero_exit_witness:
  "run_libradtran as_token (failing_solver ''Error: unknown option'') ''bin''
       ''wavelength 550'' [] ()
     = (Inr (ErrorText (ascii ''Error: unknown option'')), ())"
proof -
  have o: "decode ''1 2'' = Inr (ascii ''1 2'')" by (rule decode_ascii) simp
  have e: "decode ''Error: unknown option'' = Inr (ascii ''Error: unknown option'')"
    by (rule decode_ascii) simp
  show ?thesis
    using run_libradtran_nonzero_exit
      [of "failing_solver ''Error: unknown option''" "''bin''" "''wavelength 550''" "()"
          "\<lparr>returncode = 1, stdout = ''1 2'', stderr = ''Error: unknown option''\<rparr>" "()"
          "ascii ''1 2''" "ascii ''Error: unknown option''" as_token "[]"]
      o e
    by (simp add: failing_solver_def)
qed

text \<open>
  Without the proviso the statement fails: the streams are decoded before the exit
  status is tested, so a solver that exits with status 1 and the single byte \<^verbatim>\<open>FF\<close> on
  its standard error stream makes \<^verbatim>\<open>run_libradtran\<close> raise \<^verbatim>\<open>UnicodeDecodeError\<close>, and
  no text is returned.
\<close>

theorem nonzero_exit_undecodable:
  "run_libradtran as_token (failing_solver [CHR 0xFF]) ''bin'' ''wavelength 550'' [] ()
     = (Inl UnicodeDecodeError, ())"
  by (simp add: run_libradtran_def failing_solver_def decode_def)

section \<open>Parsing the output of the solver\<close>

lemma split_on_line:
  "d \<notin> set l \<Longrightarrow> split_on d (l @ d # rest) = l # split_on d rest"
  by (induction l) auto

lemma split_on_lines:
  "\<forall>l \<in> set ls. d \<notin> set l
     \<Longrightarrow> split_on d (concat (map (\<lambda>l. l @ [d]) ls)) = ls @ [[]]"
  by (induction ls) (auto simp: split_on_line)

lemma collect_all:
  "\<forall>i \<in> set inds. f i = Inr (g i) \<Longrightarrow> collect f inds = Inr (map g inds)"
  by (induction inds) auto

lemma collect_length:
  "collect f inds = Inr ds \<Longrightarrow> length ds = length inds"
  by (induction inds arbitrary: ds) (auto split: sum.splits)

lemma genfromtxt_many:
  "2 \<le> length (split_line line) \<Longrightarrow> genfromtxt conv line = Arr1 (map conv (split_line line))"
  by (cases "split_line line" rule: list.exhaust; cases "tl (split_line line)")
     (auto simp: genfromtxt_def)

lemma make_output_dict_basic:
  assumes "7 \<le> length (split_line line)"
  shows "make_output_dict (genfromtxt conv line, umu, phi, u0u, uu) err
    = Inr \<lparr>d_lambda = conv (split_line line ! 0), d_edir = conv (split_line line ! 1),
           d_edn = conv (split_line line ! 2), d_eup = conv (split_line line ! 3),
           d_uavgdir = conv (split_line line ! 4), d_uavgdn = conv (split_line line ! 5),
           d_uavup = conv (split_line line ! 6),
           d_umu = umu, d_phi = phi, d_u0u = u0u, d_uu = uu, d_message = err\<rparr>"
proof -
  have g: "genfromtxt conv line = Arr1 (map conv (split_line line))"
    using assms by (simp add: genfromtxt_many)
  show ?thesis using assms by (auto simp: make_output_dict_def g)
qed

text \<open>
  Claim C3. With output format 0, when the solver succeeds, both of its streams decode
  and its output consists of \<open>N\<close> lines, each ended by a line feed and each holding
  at least seven tokens,
  \<^verbatim>\<open>run_libradtran\<close> returns exactly one dictionary per line, in the order of the
  lines, and in each of them \<open>umu\<close>, \<open>phi\<close>, \<open>u0u(umu)\<close> and \<open>uu(umu,phi)\<close> are
  \<^verbatim>\<open>None\<close>.
\<close>

theorem format_0_cases:
  assumes run: "solver loc params w = (pros, w')" and ok: "returncode pros = 0"
    and out: "decode (stdout pros) = Inr (concat (map (\<lambda>l. l @ [0x0A]) ls))"
    and err: "decode (stderr pros) = Inr msg"
    and fmt: "conf_int conf ''output_format'' = Inr 0"
    and wf: "\<forall>l \<in> set ls. 0x0A \<notin> set l \<and> 7 \<le> length (split_line l)"
  shows "run_libradtran conv solver loc params conf w
    = (Inr (Records (map (\<lambda>l.
         \<lparr>d_lambda = conv (split_line l ! 0), d_edir = conv (split_line l ! 1),
          d_edn = conv (split_line l ! 2), d_eup = conv (split_line l ! 3),
          d_uavgdir = conv (split_line l ! 4), d_uavgdn = conv (split_line l ! 5),
          d_uavup = conv (split_line l ! 6),
          d_umu = None, d_phi = None, d_u0u = None, d_uu = None,
          d_message = msg\<rparr>) ls)), w')"
proof -
  let ?rec = "\<lambda>l. \<lparr>d_lambda = conv (split_line l ! 0), d_edir = conv (split_line l ! 1),
          d_edn = conv (split_line l ! 2), d_eup = conv (split_line l ! 3),
          d_uavgdir = conv (split_line l ! 4), d_uavgdn = conv (split_line l ! 5),
          d_uavup = conv (split_line l ! 6),
          d_umu = None, d_phi = None, d_u0u = None, d_uu = None,
          d_message = msg\<rparr>"
  let ?vals = "ls @ [[]]"
  have vals: "split_on 0x0A (concat (map (\<lambda>l. l @ [0x0A]) ls)) = ?vals"
    using wf by (simp add: split_on_lines)
  have cnt: "loop_row_count conf ?vals = Inr (int (length ls), 1)"
    by (simp add: loop_row_count_def fmt)
  have n: "nat (float_to_int (int (length ls), 1)) = length ls"
    by (simp add: float_to_int_def sgn_if)
  have each: "\<forall>i \<in> set [0 ..< length ls].
      case_dict conv conf ?vals msg i = Inr (?rec (ls ! i))"
  proof
    fix i assume "i \<in> set [0 ..< length ls]"
    then have i: "i < length ls" by simp
    then have l: "7 \<le> length (split_line (ls ! i))" using wf by simp
    have "parse_case conv conf ?vals i = Inr (output_format_1_parser conv (ls ! i))"
      using i by (simp add: parse_case_def fmt nth_append)
    then show "case_dict conv conf ?vals msg i = Inr (?rec (ls ! i))"
      using make_output_dict_basic [OF l]
      by (simp add: case_dict_def output_format_1_parser_def)
  qed
  have "collect (case_dict conv conf ?vals msg) [0 ..< length ls]
      = Inr (map (\<lambda>i. ?rec (ls ! i)) [0 ..< length ls])"
    using collect_all [OF each] .
  also have "map (\<lambda>i. ?rec (ls ! i)) [0 ..< length ls] = map ?rec ls"
    by (rule nth_equalityI) auto
  finally have c: "collect (case_dict conv conf ?vals msg) [0 ..< length ls]
      = Inr (map ?rec ls)" .
  have "parse_output conv (concat (map (\<lambda>l. l @ [0x0A]) ls)) msg conf = Inr (map ?rec ls)"
    unfolding parse_output_def Let_def vals cnt n sum.case c ..
  then show ?thesis
    using run_libradtran_decoded [of solver loc params w pros w' _ msg conv conf, OF run out err]
    by (simp add: ok)
qed

theorem format_0_cases_witness:
  "run_libradtran as_token
     (printing_solver (''1 2 3 4 5 6 7'' @ [CHR 0x0A] @ ''8 9 10 11 12 13 14'' @ [CHR 0x0A]))
     ''bin'' ''wavelength 550 551'' [(''output_format'', PyInt 0)] ()
   = (Inr (Records
       [\<lparr>d_lambda = ascii ''1'', d_edir = ascii ''2'', d_edn = ascii ''3'',
         d_eup = ascii ''4'', d_uavgdir = ascii ''5'', d_uavgdn = ascii ''6'',
         d_uavup = ascii ''7'',
         d_umu = None, d_phi = None, d_u0u = None, d_uu = None, d_message = []\<rparr>,
        \<lparr>d_lambda = ascii ''8'', d_edir = ascii ''9'', d_edn = ascii ''10'',
         d_eup = ascii ''11'', d_uavgdir = ascii ''12'', d_uavgdn = ascii ''13'',
         d_uavup = ascii ''14'',
         d_umu = None, d_phi = None, d_u0u = None, d_uu = None, d_message = []\<rparr>]), ())"
  using format_0_cases
    [of "printing_solver
           (''1 2 3 4 5 6 7'' @ [CHR 0x0A] @ ''8 9 10 11 12 13 14'' @ [CHR 0x0A])"
      "''bin''" "''wavelength 550 551''" "()"
      "\<lparr>returncode = 0,
        stdout = ''1 2 3 4 5 6 7'' @ [CHR 0x0A] @ ''8 9 10 11 12 13 14'' @ [CHR 0x0A],
        stderr = []\<rparr>" "()"
      "[ascii ''1 2 3 4 5 6 7'', ascii ''8 9 10 11 12 13 14'']" "[]"
      "[(''output_format'', PyInt 0)]" as_token]
  by (simp add: printing_solver_def decode_def ascii_def conf_int_def getitem_def
      split_line_def split_ws_def is_space_def as_token_def)

section \<open>Blocks with viewing angles\<close>

lemma two_tokens: "2 \<le> length xs \<Longrightarrow> \<exists>a b r. xs = a # b # r"
  by (cases xs; cases "tl xs") auto

lemma row_at_tokens:
  assumes "2 \<le> length (split_line l)"
  shows "row_at (genfromtxt conv l) 0 = Inr (conv (split_line l ! 0))"
    and "row_at (genfromtxt conv l) (Suc 0) = Inr (conv (split_line l ! Suc 0))"
proof -
  from two_tokens [OF assms] obtain a b r where "split_line l = a # b # r" by blast
  then show "row_at (genfromtxt conv l) 0 = Inr (conv (split_line l ! 0))"
    and "row_at (genfromtxt conv l) (Suc 0) = Inr (conv (split_line l ! Suc 0))"
    by (simp_all add: genfromtxt_def)
qed


lemma tokens_nonempty: "2 \<le> length (split_line l) \<Longrightarrow> l \<noteq> []"
  by (auto simp: split_line_def split_ws_def)

lemma foldl_np_append_Arr1: "foldl np_append (Arr1 ys) xs = Arr1 (ys @ xs)"
  by (induction xs arbitrary: ys) auto

lemma foldl_np_append_Arr0:
  "foldl np_append (Arr0 a) xs = (if xs = [] then Arr0 a else Arr1 (a # xs))"
  by (cases xs) (auto simp: foldl_np_append_Arr1)

lemma format_2_loop_rest:
  assumes "0 < i" and "\<forall>l \<in> set ls. 2 \<le> length (split_line l)"
  shows "format_2_loop conv i ls (Some u) (Some v)
    = Inr (Some (foldl np_append u (map (\<lambda>l. conv (split_line l ! 0)) ls)),
           Some (foldl np_append v (map (\<lambda>l. conv (split_line l ! 1)) ls)))"
  using assms
proof (induction ls arbitrary: i u v)
  case Nil
  then show ?case by simp
next
  case (Cons l ls)
  from Cons.prems have l: "2 \<le> length (split_line l)" by simp
  then have ne: "l \<noteq> []" by (rule tokens_nonempty)
  note r0 = row_at_tokens(1) [OF l] and r1 = row_at_tokens(2) [OF l]
  have rest: "\<forall>l \<in> set ls. 2 \<le> length (split_line l)" using Cons.prems by simp
  show ?case
    using Cons.prems(1) Cons.IH [OF _ rest, of "Suc i"]
    by (simp add: ne r0 r1 Let_def del: row_at.simps)
qed


lemma output_format_2_parser_lines:
  assumes "\<forall>l \<in> set (a # as). 2 \<le> length (split_line l)"
  shows "output_format_2_parser conv (b # a # as)
    = Inr (genfromtxt conv b,
           Some (foldl np_append (Arr0 (conv (split_line a ! 0)))
                   (map (\<lambda>l. conv (split_line l ! 0)) as)),
           None,
           Some (foldl np_append (Arr0 (conv (split_line a ! Suc 0)))
                   (map (\<lambda>l. conv (split_line l ! Suc 0)) as)),
           None)"
proof -
  from assms have a: "2 \<le> length (split_line a)"
    and rest: "\<forall>l \<in> set as. 2 \<le> length (split_line l)" by simp_all
  note r0 = row_at_tokens(1) [OF a] and r1 = row_at_tokens(2) [OF a]
  have ne: "a \<noteq> []" using a by (rule tokens_nonempty)
  have "format_2_loop conv 0 (a # as) None None
      = format_2_loop conv (Suc 0) as (Some (Arr0 (conv (split_line a ! 0))))
          (Some (Arr0 (conv (split_line a ! Suc 0))))"
    by (simp add: ne r0 r1 Let_def del: row_at.simps)
  also have "\<dots> = Inr (Some (foldl np_append (Arr0 (conv (split_line a ! 0)))
                   (map (\<lambda>l. conv (split_line l ! 0)) as)),
           Some (foldl np_append (Arr0 (conv (split_line a ! Suc 0)))
                   (map (\<lambda>l. conv (split_line l ! Suc 0)) as)))"
    using format_2_loop_rest [OF _ rest, of "Suc 0"] by simp
  finally show ?thesis
    by (simp add: output_format_2_parser_def Let_def)
qed

text \<open>
  Claim C4. With output format 1 and three viewing angles, when the solver succeeds,
  both of its streams decode and its output is one block of four lines (a first line of at least seven tokens and
  three lines of at least two tokens each), \<^verbatim>\<open>run_libradtran\<close> returns one dictionary
  in which \<open>umu\<close> holds the first tokens and \<open>u0u(umu)\<close> the second tokens of the
  three lines, each of length three and in the order of the lines.
\<close>

theorem format_1_three_angles:
  assumes run: "solver loc params w = (pros, w')" and ok: "returncode pros = 0"
    and out: "decode (stdout pros) = Inr (concat (map (\<lambda>l. l @ [0x0A]) [b, a1, a2, a3]))"
    and err: "decode (stderr pros) = Inr msg"
    and fmt: "conf_int conf ''output_format'' = Inr 1"
    and umu: "conf_int conf ''umu_length'' = Inr 3"
    and nl: "\<forall>l \<in> set [b, a1, a2, a3]. 0x0A \<notin> set l"
    and wfb: "7 \<le> length (split_line b)"
    and wfa: "\<forall>l \<in> set [a1, a2, a3]. 2 \<le> length (split_line l)"
  shows "run_libradtran conv solver loc params conf w
    = (Inr (Records
        [\<lparr>d_lambda = conv (split_line b ! 0), d_edir = conv (split_line b ! 1),
          d_edn = conv (split_line b ! 2), d_eup = conv (split_line b ! 3),
          d_uavgdir = conv (split_line b ! 4), d_uavgdn = conv (split_line b ! 5),
          d_uavup = conv (split_line b ! 6),
          d_umu = Some (Arr1 [conv (split_line a1 ! 0), conv (split_line a2 ! 0),
                              conv (split_line a3 ! 0)]),
          d_phi = None,
          d_u0u = Some (Arr1 [conv (split_line a1 ! 1), conv (split_line a2 ! 1),
                              conv (split_line a3 ! 1)]),
          d_uu = None,
          d_message = msg\<rparr>]), w')"
proof -
  let ?vals = "[b, a1, a2, a3, []]"
  have vals: "split_on 0x0A (concat (map (\<lambda>l. l @ [0x0A]) [b, a1, a2, a3])) = ?vals"
    using split_on_lines [OF nl] by simp
  have cnt: "loop_row_count conf ?vals = Inr (4, 4)"
    by (simp add: loop_row_count_def fmt umu)
  have n: "nat (float_to_int (4, 4)) = Suc 0"
    by (simp add: float_to_int_def)
  have sl: "slice ?vals (int 0 * (1 + 3)) ((int 0 + 1) * (1 + 3)) = [b, a1, a2, a3]"
    by (simp add: slice_def slice_index_def)
  have wf: "\<forall>l \<in> set (a1 # [a2, a3]). 2 \<le> length (split_line l)"
    using wfa by simp
  have p: "parse_case conv conf ?vals 0
      = Inr (genfromtxt conv b,
           Some (Arr1 [conv (split_line a1 ! 0), conv (split_line a2 ! 0),
                       conv (split_line a3 ! 0)]),
           None,
           Some (Arr1 [conv (split_line a1 ! 1), conv (split_line a2 ! 1),
                       conv (split_line a3 ! 1)]),
           None)"
    unfolding parse_case_def fmt umu sum.case
    using output_format_2_parser_lines [OF wf, of conv b] sl
    by simp
  have c: "case_dict conv conf ?vals msg 0 = Inr
        \<lparr>d_lambda = conv (split_line b ! 0), d_edir = conv (split_line b ! 1),
          d_edn = conv (split_line b ! 2), d_eup = conv (split_line b ! 3),
          d_uavgdir = conv (split_line b ! 4), d_uavgdn = conv (split_line b ! 5),
          d_uavup = conv (split_line b ! 6),
          d_umu = Some (Arr1 [conv (split_line a1 ! 0), conv (split_line a2 ! 0),
                              conv (split_line a3 ! 0)]),
          d_phi = None,
          d_u0u = Some (Arr1 [conv (split_line a1 ! 1), conv (split_line a2 ! 1),
                              conv (split_line a3 ! 1)]),
          d_uu = None,
          d_message = msg\<rparr>"
    unfolding case_dict_def p sum.case by (rule make_output_dict_basic [OF wfb])
  have "parse_output conv (concat (map (\<lambda>l. l @ [0x0A]) [b, a1, a2, a3])) msg conf = Inr
        [\<lparr>d_lambda = conv (split_line b ! 0), d_edir = conv (split_line b ! 1),
          d_edn = conv (split_line b ! 2), d_eup = conv (split_line b ! 3),
          d_uavgdir = conv (split_line b ! 4), d_uavgdn = conv (split_line b ! 5),
          d_uavup = conv (split_line b ! 6),
          d_umu = Some (Arr1 [conv (split_line a1 ! 0), conv (split_line a2 ! 0),
                              conv (split_line a3 ! 0)]),
          d_phi = None,
          d_u0u = Some (Arr1 [conv (split_line a1 ! 1), conv (split_line a2 ! 1),
                              conv (split_line a3 ! 1)]),
          d_uu = None,
          d_message = msg\<rparr>]"
    unfolding parse_output_def Let_def vals cnt n sum.case
    by (simp add: c)
  then show ?thesis
    using run_libradtran_decoded [of solver loc params w pros w' _ msg conv conf, OF run out err]
    by (simp add: ok)
qed

theorem format_1_three_angles_witness:
  "run_libradtran as_token
     (printing_solver (''1 2 3 4 5 6 7'' @ [CHR 0x0A] @ ''10 0.1'' @ [CHR 0x0A]
                   @ ''20 0.2'' @ [CHR 0x0A] @ ''30 0.3'' @ [CHR 0x0A]))
     ''bin'' ''umu 10 20 30''
     [(''output_format'', PyInt 1), (''umu_length'', PyStr ''3'')] ()
   = (Inr (Records
       [\<lparr>d_lambda = ascii ''1'', d_edir = ascii ''2'', d_edn = ascii ''3'',
         d_eup = ascii ''4'', d_uavgdir = ascii ''5'', d_uavgdn = ascii ''6'',
         d_uavup = ascii ''7'',
         d_umu = Some (Arr1 [ascii ''10'', ascii ''20'', ascii ''30'']), d_phi = None,
         d_u0u = Some (Arr1 [ascii ''0.1'', ascii ''0.2'', ascii ''0.3'']), d_uu = None,
         d_message = []\<rparr>]), ())"
proof -
  have u: "conf_int [(''output_format'', PyInt 1), (''umu_length'', PyStr ''3'')]
      ''umu_length'' = Inr 3"
    by (simp add: conf_int_def getitem_def int_of_string_def int_strip_def int_space_def
        digits_int_def digit_val_def max_str_digits_def)
  have f: "conf_int [(''output_format'', PyInt 1), (''umu_length'', PyStr ''3'')]
      ''output_format'' = Inr 1"
    by (simp add: conf_int_def getitem_def)
  show ?thesis
    using format_1_three_angles
      [of "printing_solver (''1 2 3 4 5 6 7'' @ [CHR 0x0A] @ ''10 0.1'' @ [CHR 0x0A]
                   @ ''20 0.2'' @ [CHR 0x0A] @ ''30 0.3'' @ [CHR 0x0A])"
        "''bin''" "''umu 10 20 30''" "()"
        "\<lparr>returncode = 0,
          stdout = ''1 2 3 4 5 6 7'' @ [CHR 0x0A] @ ''10 0.1'' @ [CHR 0x0A]
                     @ ''20 0.2'' @ [CHR 0x0A] @ ''30 0.3'' @ [CHR 0x0A],
          stderr = []\<rparr>" "()"
        "ascii ''1 2 3 4 5 6 7''" "ascii ''10 0.1''" "ascii ''20 0.2''" "ascii ''30 0.3''"
        "[]" "[(''output_format'', PyInt 1), (''umu_length'', PyStr ''3'')]" as_token,
       OF _ _ _ _ f u]
    by (simp add: printing_solver_def decode_def ascii_def split_line_def split_ws_def
        is_space_def as_token_def)
qed

section \<open>The table of radiances\<close>









section \<open>Empty lines in a block\<close>




section \<open>The cases of an output\<close>












section \<open>The first line of a block\<close>



section \<open>An output that is no whole number of cases\<close>




section \<open>The results of a list of configurations\<close>







end
